theory Spec2Isabelle
  imports Main
begin

section \<open>apifast: a fluent builder over an HTTP transport\<close>

text \<open>
  A shallow embedding of \<^verbatim>\<open>apifast.go\<close>. Go strings and byte slices are byte
  sequences (\<open>string\<close>, a list of 8-bit characters); a nil byte slice is \<open>None\<close>.
  \<open>time.Duration\<close> is a signed count of nanoseconds; no arithmetic is done on it, only
  the comparison with zero, so it is an \<open>int\<close>. A value of type \<open>interface{}\<close> is a value
  of a type parameter, \<open>None\<close> when the interface is nil.
\<close>

subsection \<open>Data model (lines 13-43)\<close>

record 'v Header =
  Tag :: string
  Value :: 'v

record Auth =
  Username :: string
  Password :: string
  Token :: string

record 'v RequestOptions =
  Timeout :: int
  payload :: "string option"
  Headers :: "'v Header list"
  Auth :: Auth

record ('v, 'r) FastBuilder =
  "method" :: string
  url :: string
  options :: "'v RequestOptions"
  result :: "'r option"

record Response =
  Code :: int
  Msg :: string
  Body :: string

text \<open>The zero values \<^verbatim>\<open>Auth{}\<close>, \<^verbatim>\<open>RequestOptions{}\<close> and \<^verbatim>\<open>FastBuilder{}\<close>.\<close>

definition Auth_zero :: Auth where
  "Auth_zero = \<lparr>Username = [], Password = [], Token = []\<rparr>"

definition RequestOptions_zero :: "'v RequestOptions" where
  "RequestOptions_zero = \<lparr>Timeout = 0, payload = None, Headers = [], Auth = Auth_zero\<rparr>"

definition FastBuilder_zero :: "('v, 'r) FastBuilder" where
  "FastBuilder_zero = \<lparr>method = [], url = [], options = RequestOptions_zero, result = None\<rparr>"

subsection \<open>The builder on the heap (lines 45-84)\<close>

text \<open>
  The setters have a pointer receiver, mutate the struct behind it and return the
  pointer. A pointer is an address, the heap maps addresses to builders, and a call on
  an address that holds no builder (a nil receiver) panics: \<open>None\<close>.
\<close>

type_synonym ref = nat

type_synonym ('v, 'r) heap = "ref \<rightharpoonup> ('v, 'r) FastBuilder"

text \<open>\<^verbatim>\<open>Build\<close> stores \<^verbatim>\<open>FastBuilder{}\<close> at a free address \<open>p\<close>, chosen by the allocator.\<close>

definition Build :: "ref \<Rightarrow> ('v, 'r) heap \<Rightarrow> ref \<times> ('v, 'r) heap" where
  "Build p h = (p, h(p \<mapsto> FastBuilder_zero))"

definition Uri :: "string \<Rightarrow> ref \<Rightarrow> ('v, 'r) heap \<Rightarrow> (ref \<times> ('v, 'r) heap) option" where
  "Uri u b h =
     (case h b of
        None \<Rightarrow> None
      | Some fb \<Rightarrow> Some (b, h(b \<mapsto> fb\<lparr>url := u\<rparr>)))"

definition Timeout_set :: "int \<Rightarrow> ref \<Rightarrow> ('v, 'r) heap \<Rightarrow> (ref \<times> ('v, 'r) heap) option" where
  "Timeout_set timeout b h =
     (case h b of
        None \<Rightarrow> None
      | Some fb \<Rightarrow> Some (b, h(b \<mapsto> fb\<lparr>options := (options fb)\<lparr>Timeout := timeout\<rparr>\<rparr>)))"

definition Auth_set :: "Auth \<Rightarrow> ref \<Rightarrow> ('v, 'r) heap \<Rightarrow> (ref \<times> ('v, 'r) heap) option" where
  "Auth_set auth b h =
     (case h b of
        None \<Rightarrow> None
      | Some fb \<Rightarrow> Some (b, h(b \<mapsto> fb\<lparr>options := (options fb)\<lparr>Auth := auth\<rparr>\<rparr>)))"

definition Headers_set ::
  "'v Header list \<Rightarrow> ref \<Rightarrow> ('v, 'r) heap \<Rightarrow> (ref \<times> ('v, 'r) heap) option" where
  "Headers_set headers b h =
     (case h b of
        None \<Rightarrow> None
      | Some fb \<Rightarrow> Some (b, h(b \<mapsto> fb\<lparr>options := (options fb)\<lparr>Headers := headers\<rparr>\<rparr>)))"

definition Payload ::
  "string option \<Rightarrow> ref \<Rightarrow> ('v, 'r) heap \<Rightarrow> (ref \<times> ('v, 'r) heap) option" where
  "Payload p b h =
     (case h b of
        None \<Rightarrow> None
      | Some fb \<Rightarrow> Some (b, h(b \<mapsto> fb\<lparr>options := (options fb)\<lparr>payload := p\<rparr>\<rparr>)))"

definition Result :: "'r option \<Rightarrow> ref \<Rightarrow> ('v, 'r) heap \<Rightarrow> (ref \<times> ('v, 'r) heap) option" where
  "Result res b h =
     (case h b of
        None \<Rightarrow> None
      | Some fb \<Rightarrow> Some (b, h(b \<mapsto> fb\<lparr>result := res\<rparr>)))"

subsection \<open>Standard base64 (\<^verbatim>\<open>base64.StdEncoding.EncodeToString\<close>)\<close>

text \<open>
  The encoder of Go's standard library, as it is written there: three bytes make a
  24-bit value that is cut into four 6-bit digits; a rest of one or two bytes is
  padded with \<open>=\<close>.
\<close>

definition encodeStd :: string where
  "encodeStd = ''ABCDEFGHIJKLMNOPQRSTUVWXYZabcdefghijklmnopqrstuvwxyz0123456789+/''"

definition enc6 :: "nat \<Rightarrow> char" where
  "enc6 v = encodeStd ! (v mod 64)"

fun EncodeToString :: "string \<Rightarrow> string" where
  "EncodeToString (a # b # c # src) =
     (let val = of_char a * 65536 + of_char b * 256 + of_char c
      in enc6 (val div 262144) # enc6 (val div 4096) # enc6 (val div 64) # enc6 val
           # EncodeToString src)"
| "EncodeToString [a, b] =
     (let val = of_char a * 65536 + of_char b * 256
      in [enc6 (val div 262144), enc6 (val div 4096), enc6 (val div 64), CHR ''=''])"
| "EncodeToString [a] =
     (let val = of_char a * 65536
      in [enc6 (val div 262144), enc6 (val div 4096), CHR ''='', CHR ''=''])"
| "EncodeToString [] = []"

subsection \<open>The transport, as far as \<^verbatim>\<open>makeRequest\<close> drives it\<close>

text \<open>
  The HTTP client is an external library. Its request object is modelled by what the
  code tells it: the calls of \<^verbatim>\<open>req.Header.Set\<close> in the order they are issued (how
  the transport stores them, and whether it merges equal names, is its own business),
  the request URI, the method and the body, each \<open>None\<close> until its setter is called.
\<close>

record fasthttp_Client =
  ReadTimeout :: int
  WriteTimeout :: int

record fasthttp_Request =
  header_sets :: "(string \<times> string) list"
  requestURI :: "string option"
  header_method :: "string option"
  body :: "string option"

text \<open>
  The response of the transport: its status code, its status line (protocol, code and
  status message), the lines of its header block and its body.
\<close>

record fasthttp_Response =
  resp_StatusCode :: int
  resp_StatusLine :: string
  resp_HeaderLines :: "string list"
  resp_Body :: string

definition CRLF :: string where
  "CRLF = [CHR 0x0D, CHR 0x0A]"

text \<open>
  \<^verbatim>\<open>resp.String()\<close> is the representation of the response, that is the text the
  response is written as: the status line, the header lines, an empty line and the
  body.
\<close>

definition resp_String :: "fasthttp_Response \<Rightarrow> string" where
  "resp_String resp =
     resp_StatusLine resp @ CRLF @ concat (map (\<lambda>l. l @ CRLF) (resp_HeaderLines resp)) @
     CRLF @ resp_Body resp"

definition AcquireRequest :: fasthttp_Request where
  "AcquireRequest = \<lparr>header_sets = [], requestURI = None, header_method = None, body = None\<rparr>"

definition Header_Set :: "string \<Rightarrow> string \<Rightarrow> fasthttp_Request \<Rightarrow> fasthttp_Request" where
  "Header_Set key val req = req\<lparr>header_sets := header_sets req @ [(key, val)]\<rparr>"

definition SetRequestURI :: "string \<Rightarrow> fasthttp_Request \<Rightarrow> fasthttp_Request" where
  "SetRequestURI uri req = req\<lparr>requestURI := Some uri\<rparr>"

definition Header_SetMethod :: "string \<Rightarrow> fasthttp_Request \<Rightarrow> fasthttp_Request" where
  "Header_SetMethod m req = req\<lparr>header_method := Some m\<rparr>"

definition SetBody :: "string \<Rightarrow> fasthttp_Request \<Rightarrow> fasthttp_Request" where
  "SetBody p req = req\<lparr>body := Some p\<rparr>"

text \<open>
  The header a transport with replace-on-set semantics holds under \<open>key\<close>: the value
  of the last \<^verbatim>\<open>Set\<close> whose name is the same header name. Which names are the same is
  the transport's choice (it may canonicalise their case): \<open>norm\<close> is that
  canonicalisation, and nothing below depends on which one it is.
\<close>

definition Peek :: "(string \<Rightarrow> string) \<Rightarrow> string \<Rightarrow> fasthttp_Request \<Rightarrow> string option" where
  "Peek norm key req =
     (case filter (\<lambda>kv. norm (fst kv) = norm key) (header_sets req) of
        [] \<Rightarrow> None
      | kv # kvs \<Rightarrow> Some (snd (last (kv # kvs))))"

text \<open>
  The moment at which the transport call returns: the time that has passed since
  \<^verbatim>\<open>makeRequest\<close> made its context, and whether the callback of the context's
  deadline timer has run by then. The runtime runs that callback at the deadline or
  later, when its scheduler gets to it, so the second is not a function of the first.
\<close>

record moment =
  elapsed :: int
  timer_fired :: bool

text \<open>
  \<^verbatim>\<open>client.DoTimeout(req, resp, timeout)\<close> is a parameter of the model: given the
  client, the request and the duration it answers with the transport error's message
  or with the response, and with the moment at which it returns.
\<close>

type_synonym transport =
  "fasthttp_Client \<Rightarrow> fasthttp_Request \<Rightarrow> int \<Rightarrow> (string + fasthttp_Response) \<times> moment"

subsection \<open>The deadline context (\<^verbatim>\<open>context\<close>)\<close>

datatype Context = Background | WithTimeout int

datatype ctx_error = Canceled | DeadlineExceeded

text \<open>
  \<^verbatim>\<open>ctx.Err()\<close> at a moment. The background context never has an error. A context
  with a timeout has the error \<^verbatim>\<open>DeadlineExceeded\<close> once the callback of its timer has
  run, which is never before the deadline; until then, also when the deadline has
  passed, its error is nil. \<^verbatim>\<open>cancel\<close> is deferred to the return of \<^verbatim>\<open>makeRequest\<close>,
  so the context is not cancelled when it is asked.
\<close>

fun ctx_Err :: "moment \<Rightarrow> Context \<Rightarrow> ctx_error option" where
  "ctx_Err now Background = None"
| "ctx_Err now (WithTimeout d) =
     (if d \<le> elapsed now \<and> timer_fired now then Some DeadlineExceeded else None)"

subsection \<open>Errors, the JSON decoder and the calls that leave the package\<close>

text \<open>
  An error is either made by \<^verbatim>\<open>fmt.Errorf\<close> (its message) or is the error of
  \<^verbatim>\<open>json.Unmarshal\<close>, returned as it is. \<^verbatim>\<open>json.Unmarshal(source, dest)\<close> is a
  parameter: from the bytes, the destination and the caller's memory it gives the
  error, if any, and the memory it leaves (it may write to the destination also when
  it fails).
\<close>

datatype 'e error = Errorf string | Unmarshal_error 'e

type_synonym ('r, 'm, 'e) unmarshal = "string \<Rightarrow> 'r \<Rightarrow> 'm \<Rightarrow> 'e option \<times> 'm"

definition mapper :: "('r, 'm, 'e) unmarshal \<Rightarrow> string \<Rightarrow> 'r \<Rightarrow> 'm \<Rightarrow> 'e option \<times> 'm" where
  "mapper Unmarshal source dest mem = Unmarshal source dest mem"

text \<open>
  What \<^verbatim>\<open>makeRequest\<close> does besides returning: the calls it makes out of the package,
  in the order it makes them (the timed transport call with its client, request and
  duration; the decoder call with the body and the destination), and the caller's
  memory as the decoder leaves it.
\<close>

datatype 'r call =
  Call_DoTimeout fasthttp_Client fasthttp_Request int
| Call_mapper string 'r

record ('r, 'm, 'e) outcome =
  returned :: "'e error + Response"
  memory :: 'm
  calls :: "'r call list"

fun sent_requests :: "'r call list \<Rightarrow> (fasthttp_Client \<times> fasthttp_Request \<times> int) list" where
  "sent_requests [] = []"
| "sent_requests (Call_DoTimeout c req d # cs) = (c, req, d) # sent_requests cs"
| "sent_requests (Call_mapper s dest # cs) = sent_requests cs"

fun mapper_calls :: "'r call list \<Rightarrow> (string \<times> 'r) list" where
  "mapper_calls [] = []"
| "mapper_calls (Call_DoTimeout c req d # cs) = mapper_calls cs"
| "mapper_calls (Call_mapper s dest # cs) = (s, dest) # mapper_calls cs"

subsection \<open>\<^verbatim>\<open>makeRequest\<close> (lines 110-185)\<close>

text \<open>
  The function is cut at its comments into the steps below. The deferred calls give
  the request and the response back to the transport's pool when the function
  returns; the pool and the lifetime of the bytes are not part of the model.
\<close>

text \<open>Lines 112-120: the context, with a deadline only for a positive timeout.\<close>

definition make_ctx :: "('v, 'r) FastBuilder \<Rightarrow> Context" where
  "make_ctx b =
     (if Timeout (options b) > 0 then WithTimeout (Timeout (options b)) else Background)"

text \<open>Lines 122-126: the client.\<close>

definition make_client :: "('v, 'r) FastBuilder \<Rightarrow> fasthttp_Client" where
  "make_client b =
     \<lparr>ReadTimeout = Timeout (options b), WriteTimeout = Timeout (options b)\<rparr>"

text \<open>
  Lines 132-135: the loop over the headers; \<open>Sprintf_v\<close> is \<^verbatim>\<open>fmt.Sprintf("%v", _)\<close>
  on the type of the header values.
\<close>

fun set_headers ::
  "('v \<Rightarrow> string) \<Rightarrow> 'v Header list \<Rightarrow> fasthttp_Request \<Rightarrow> fasthttp_Request" where
  "set_headers Sprintf_v [] req = req"
| "set_headers Sprintf_v (h # hs) req =
     set_headers Sprintf_v hs (Header_Set (Tag h) (Sprintf_v (Value h)) req)"

text \<open>Lines 137-144: Basic or Bearer authentication.\<close>

definition set_auth :: "Auth \<Rightarrow> fasthttp_Request \<Rightarrow> fasthttp_Request" where
  "set_auth a req =
     (if Username a \<noteq> [] \<and> Password a \<noteq> [] then
        (let authHeader = ''Basic '' @ EncodeToString (Username a @ '':'' @ Password a)
         in Header_Set ''Authorization'' authHeader req)
      else if Token a \<noteq> [] then
        (let authHeader = ''Bearer '' @ Token a
         in Header_Set ''Authorization'' authHeader req)
      else req)"

text \<open>Lines 150-153: the body, only for a payload that is not nil.\<close>

definition set_payload :: "string option \<Rightarrow> fasthttp_Request \<Rightarrow> fasthttp_Request" where
  "set_payload p req = (case p of None \<Rightarrow> req | Some bytes \<Rightarrow> SetBody bytes req)"

text \<open>Lines 128-153: the request as it is handed to the transport.\<close>

definition prepareRequest :: "('v \<Rightarrow> string) \<Rightarrow> ('v, 'r) FastBuilder \<Rightarrow> fasthttp_Request" where
  "prepareRequest Sprintf_v b =
     (let req = AcquireRequest;
          req = set_headers Sprintf_v (Headers (options b)) req;
          req = set_auth (Auth (options b)) req;
          req = SetRequestURI (url b) req;
          req = Header_SetMethod (method b) req
      in set_payload (payload (options b)) req)"

text \<open>Lines 179-184: the response that is returned.\<close>

definition make_Response :: "fasthttp_Response \<Rightarrow> Response" where
  "make_Response resp =
     \<lparr>Code = resp_StatusCode resp, Msg = resp_String resp, Body = resp_Body resp\<rparr>"

definition makeRequest ::
  "transport \<Rightarrow> ('r, 'm, 'e) unmarshal \<Rightarrow> ('v \<Rightarrow> string) \<Rightarrow> ('v, 'r) FastBuilder \<Rightarrow> 'm
     \<Rightarrow> ('r, 'm, 'e) outcome" where
  "makeRequest DoTimeout Unmarshal Sprintf_v b mem =
     (let ctx = make_ctx b;
          client = make_client b;
          req = prepareRequest Sprintf_v b;
          sent = Call_DoTimeout client req (Timeout (options b))
      in case DoTimeout client req (Timeout (options b)) of
           (Inl err, now) \<Rightarrow>
             if ctx_Err now ctx \<noteq> None \<and> ctx_Err now ctx = Some DeadlineExceeded then
               \<lparr>returned = Inl (Errorf ''request timed out''), memory = mem, calls = [sent]\<rparr>
             else
               \<lparr>returned = Inl (Errorf (''request failed: '' @ err)), memory = mem,
                calls = [sent]\<rparr>
         | (Inr resp, now) \<Rightarrow>
             (case result b of
                None \<Rightarrow>
                  \<lparr>returned = Inr (make_Response resp), memory = mem, calls = [sent]\<rparr>
              | Some dest \<Rightarrow>
                  (case mapper Unmarshal (resp_Body resp) dest mem of
                     (Some e, mem') \<Rightarrow>
                       \<lparr>returned = Inl (Unmarshal_error e), memory = mem',
                        calls = [sent, Call_mapper (resp_Body resp) dest]\<rparr>
                   | (None, mem') \<Rightarrow>
                       \<lparr>returned = Inr (make_Response resp), memory = mem',
                        calls = [sent, Call_mapper (resp_Body resp) dest]\<rparr>)))"

subsection \<open>The terminal calls (lines 86-108)\<close>

text \<open>
  Each stores its verb in the builder behind the receiver and runs \<^verbatim>\<open>makeRequest\<close>
  on it; a nil receiver panics.
\<close>

definition Get ::
  "transport \<Rightarrow> ('r, 'm, 'e) unmarshal \<Rightarrow> ('v \<Rightarrow> string) \<Rightarrow> ref \<Rightarrow> ('v, 'r) heap \<Rightarrow> 'm
     \<Rightarrow> (('r, 'm, 'e) outcome \<times> ('v, 'r) heap) option" where
  "Get DoTimeout Unmarshal Sprintf_v b h mem =
     (case h b of
        None \<Rightarrow> None
      | Some fb \<Rightarrow>
          (let fb' = fb\<lparr>method := ''GET''\<rparr>
           in Some (makeRequest DoTimeout Unmarshal Sprintf_v fb' mem, h(b \<mapsto> fb'))))"

definition Post ::
  "transport \<Rightarrow> ('r, 'm, 'e) unmarshal \<Rightarrow> ('v \<Rightarrow> string) \<Rightarrow> ref \<Rightarrow> ('v, 'r) heap \<Rightarrow> 'm
     \<Rightarrow> (('r, 'm, 'e) outcome \<times> ('v, 'r) heap) option" where
  "Post DoTimeout Unmarshal Sprintf_v b h mem =
     (case h b of
        None \<Rightarrow> None
      | Some fb \<Rightarrow>
          (let fb' = fb\<lparr>method := ''POST''\<rparr>
           in Some (makeRequest DoTimeout Unmarshal Sprintf_v fb' mem, h(b \<mapsto> fb'))))"

definition Patch ::
  "transport \<Rightarrow> ('r, 'm, 'e) unmarshal \<Rightarrow> ('v \<Rightarrow> string) \<Rightarrow> ref \<Rightarrow> ('v, 'r) heap \<Rightarrow> 'm
     \<Rightarrow> (('r, 'm, 'e) outcome \<times> ('v, 'r) heap) option" where
  "Patch DoTimeout Unmarshal Sprintf_v b h mem =
     (case h b of
        None \<Rightarrow> None
      | Some fb \<Rightarrow>
          (let fb' = fb\<lparr>method := ''PATCH''\<rparr>
           in Some (makeRequest DoTimeout Unmarshal Sprintf_v fb' mem, h(b \<mapsto> fb'))))"

definition Delete ::
  "transport \<Rightarrow> ('r, 'm, 'e) unmarshal \<Rightarrow> ('v \<Rightarrow> string) \<Rightarrow> ref \<Rightarrow> ('v, 'r) heap \<Rightarrow> 'm
     \<Rightarrow> (('r, 'm, 'e) outcome \<times> ('v, 'r) heap) option" where
  "Delete DoTimeout Unmarshal Sprintf_v b h mem =
     (case h b of
        None \<Rightarrow> None
      | Some fb \<Rightarrow>
          (let fb' = fb\<lparr>method := ''DELETE''\<rparr>
           in Some (makeRequest DoTimeout Unmarshal Sprintf_v fb' mem, h(b \<mapsto> fb'))))"

subsection \<open>Sample environments and builders\<close>

text \<open>
  Concrete transports, a toy decoder and concrete builders, on which the theorems
  below are instantiated. Header values are Go strings, which \<^verbatim>\<open>%v\<close> prints as they
  are (\<open>id\<close>). \<open>transport_guarded\<close> is a transport whose timed call, like the one of
  fasthttp, takes a duration that is not positive as already expired and answers
  with its timeout error without sending. The toy decoder accepts a body made of
  decimal digits only and stores it in the cell of the destination; the memory is a
  map from cells to what they hold.
\<close>

definition sample_Response :: fasthttp_Response where
  "sample_Response =
     \<lparr>resp_StatusCode = 200, resp_StatusLine = ''HTTP/1.1 200 OK'',
      resp_HeaderLines = [''Content-Length: 2''], resp_Body = ''42''\<rparr>"

definition transport_ok :: transport where
  "transport_ok client req d = (Inr sample_Response, \<lparr>elapsed = 1000, timer_fired = False\<rparr>)"

definition transport_garbage :: transport where
  "transport_garbage client req d =
     (Inr \<lparr>resp_StatusCode = 200, resp_StatusLine = ''HTTP/1.1 200 OK'',
           resp_HeaderLines = [''Content-Length: 6''], resp_Body = ''<html>''\<rparr>,
      \<lparr>elapsed = 1000, timer_fired = False\<rparr>)"

definition transport_fails :: "string \<Rightarrow> moment \<Rightarrow> transport" where
  "transport_fails msg now client req d = (Inl msg, now)"

definition transport_guarded :: transport where
  "transport_guarded client req d =
     (if d \<le> 0 then (Inl ''timeout'', \<lparr>elapsed = 0, timer_fired = False\<rparr>)
      else (Inr sample_Response, \<lparr>elapsed = 1000, timer_fired = False\<rparr>))"

definition digits_Unmarshal :: "(nat, nat \<rightharpoonup> string, string) unmarshal" where
  "digits_Unmarshal source dest mem =
     (if source \<noteq> [] \<and> list_all (\<lambda>c. c \<in> set ''0123456789'') source
      then (None, mem(dest \<mapsto> source))
      else (Some ''invalid character'', mem))"

definition get_example :: "(string, nat) FastBuilder" where
  "get_example = FastBuilder_zero\<lparr>method := ''GET'', url := ''http://example.com''\<rparr>"

definition own_Authorization :: "(string, nat) FastBuilder" where
  "own_Authorization =
     get_example\<lparr>options := RequestOptions_zero
       \<lparr>Headers := [\<lparr>Tag = ''Authorization'', Value = ''ApiKey k1''\<rparr>]\<rparr>\<rparr>"

definition both_credentials :: "(string, nat) FastBuilder" where
  "both_credentials =
     get_example\<lparr>options := RequestOptions_zero
       \<lparr>Timeout := 5000,
        Headers := [\<lparr>Tag = ''Accept'', Value = ''text/plain''\<rparr>,
                    \<lparr>Tag = ''X-Trace'', Value = ''7''\<rparr>],
        Auth := \<lparr>Username = ''u'', Password = ''p'', Token = ''t''\<rparr>\<rparr>\<rparr>"

definition post_example :: "(string, nat) FastBuilder" where
  "post_example =
     FastBuilder_zero\<lparr>method := ''POST'', url := ''http://example.com'',
       options := RequestOptions_zero\<lparr>Timeout := 5000, payload := Some ''a=1''\<rparr>,
       result := Some 0\<rparr>"

definition no_credentials :: "(string, nat) FastBuilder" where
  "no_credentials =
     get_example\<lparr>options := RequestOptions_zero
       \<lparr>Headers := [\<lparr>Tag = ''Accept'', Value = ''text/plain''\<rparr>]\<rparr>\<rparr>"

section \<open>Properties\<close>

subsection \<open>The base64 encoder on the test vectors of RFC 4648\<close>

lemma EncodeToString_vectors:
  "EncodeToString '''' = ''''"
  "EncodeToString ''f'' = ''Zg==''"
  "EncodeToString ''fo'' = ''Zm8=''"
  "EncodeToString ''foo'' = ''Zm9v''"
  "EncodeToString ''foob'' = ''Zm9vYg==''"
  "EncodeToString ''fooba'' = ''Zm9vYmE=''"
  "EncodeToString ''foobar'' = ''Zm9vYmFy''"
  by (simp_all add: enc6_def encodeStd_def)

subsection \<open>What the request holds\<close>

lemma header_sets_set_headers:
  "header_sets (set_headers f hs req) = header_sets req @ map (\<lambda>h. (Tag h, f (Value h))) hs"
  by (induction hs arbitrary: req) (simp_all add: Header_Set_def)

lemma set_headers_other:
  "requestURI (set_headers f hs req) = requestURI req"
  "header_method (set_headers f hs req) = header_method req"
  "body (set_headers f hs req) = body req"
  by (induction hs arbitrary: req) (simp_all add: Header_Set_def)

lemma header_sets_set_auth:
  "header_sets (set_auth a req) = header_sets req @ header_sets (set_auth a AcquireRequest)"
  by (simp add: set_auth_def Header_Set_def AcquireRequest_def Let_def)

lemma set_auth_other:
  "requestURI (set_auth a req) = requestURI req"
  "header_method (set_auth a req) = header_method req"
  "body (set_auth a req) = body req"
  by (simp_all add: set_auth_def Header_Set_def Let_def)

lemma header_sets_prepareRequest:
  "header_sets (prepareRequest f b) =
     header_sets (set_auth (Auth (options b)) (set_headers f (Headers (options b)) AcquireRequest))"
  by (simp add: prepareRequest_def Let_def set_payload_def SetBody_def Header_SetMethod_def
      SetRequestURI_def split: option.splits)

lemma body_prepareRequest: "body (prepareRequest f b) = payload (options b)"
  by (simp add: prepareRequest_def Let_def set_payload_def SetBody_def Header_SetMethod_def
      SetRequestURI_def set_auth_other set_headers_other AcquireRequest_def
      split: option.splits)

lemma makeRequest_sent:
  "sent_requests (calls (makeRequest tr um f b mem)) =
     [(make_client b, prepareRequest f b, Timeout (options b))]"
  by (simp add: makeRequest_def Let_def split: prod.splits sum.splits option.splits)

lemma Peek_cong: "header_sets r = header_sets r' \<Longrightarrow> Peek norm key r = Peek norm key r'"
  by (simp add: Peek_def)

lemma Peek_last:
  "Peek norm key req =
     (if filter (\<lambda>kv. norm (fst kv) = norm key) (header_sets req) = [] then None
      else Some (snd (last (filter (\<lambda>kv. norm (fst kv) = norm key) (header_sets req)))))"
  by (cases "filter (\<lambda>kv. norm (fst kv) = norm key) (header_sets req)") (simp_all add: Peek_def)

lemma Peek_Header_Set: "Peek norm key (Header_Set key v req) = Some v"
  by (simp add: Peek_last Header_Set_def)

lemma Peek_none:
  "\<forall>h \<in> set hs. norm (Tag h) \<noteq> norm key \<Longrightarrow> Peek norm key (set_headers f hs AcquireRequest) = None"
  by (auto simp add: Peek_last header_sets_set_headers AcquireRequest_def filter_empty_conv)

lemma Peek_prepareRequest:
  "Peek norm ''Authorization'' (prepareRequest f b) =
     (if Username (Auth (options b)) \<noteq> [] \<and> Password (Auth (options b)) \<noteq> [] then
        Some (''Basic '' @ EncodeToString (Username (Auth (options b)) @ '':'' @ Password (Auth (options b))))
      else if Token (Auth (options b)) \<noteq> [] then Some (''Bearer '' @ Token (Auth (options b)))
      else Peek norm ''Authorization'' (set_headers f (Headers (options b)) AcquireRequest))"
proof -
  let ?r = "set_headers f (Headers (options b)) AcquireRequest"
  have "Peek norm ''Authorization'' (prepareRequest f b) =
          Peek norm ''Authorization'' (set_auth (Auth (options b)) ?r)"
    by (rule Peek_cong) (rule header_sets_prepareRequest)
  also have "\<dots> = (if Username (Auth (options b)) \<noteq> [] \<and> Password (Auth (options b)) \<noteq> [] then
        Some (''Basic '' @ EncodeToString (Username (Auth (options b)) @ '':'' @ Password (Auth (options b))))
      else if Token (Auth (options b)) \<noteq> [] then Some (''Bearer '' @ Token (Auth (options b)))
      else Peek norm ''Authorization'' ?r)"
    by (simp add: set_auth_def Let_def Peek_Header_Set)
  finally show ?thesis .
qed

lemma makeRequest_error:
  assumes "tr (make_client b) (prepareRequest f b) (Timeout (options b)) = (Inl err, now)"
  shows "makeRequest tr um f b mem =
     \<lparr>returned = (if 0 < Timeout (options b) \<and> Timeout (options b) \<le> elapsed now \<and>
                     timer_fired now
                  then Inl (Errorf ''request timed out'')
                  else Inl (Errorf (''request failed: '' @ err))),
      memory = mem,
      calls = [Call_DoTimeout (make_client b) (prepareRequest f b) (Timeout (options b))]\<rparr>"
  using assms by (simp add: makeRequest_def Let_def make_ctx_def)

lemma makeRequest_ok_None:
  assumes "tr (make_client b) (prepareRequest f b) (Timeout (options b)) = (Inr resp, now)"
    and "result b = None"
  shows "makeRequest tr um f b mem =
     \<lparr>returned = Inr (make_Response resp), memory = mem,
      calls = [Call_DoTimeout (make_client b) (prepareRequest f b) (Timeout (options b))]\<rparr>"
  using assms by (simp add: makeRequest_def Let_def)

lemma makeRequest_ok_Some:
  assumes "tr (make_client b) (prepareRequest f b) (Timeout (options b)) = (Inr resp, now)"
    and "result b = Some dest"
  shows "makeRequest tr um f b mem =
     \<lparr>returned = (case fst (um (resp_Body resp) dest mem) of
                    Some e \<Rightarrow> Inl (Unmarshal_error e) | None \<Rightarrow> Inr (make_Response resp)),
      memory = snd (um (resp_Body resp) dest mem),
      calls = [Call_DoTimeout (make_client b) (prepareRequest f b) (Timeout (options b)),
               Call_mapper (resp_Body resp) dest]\<rparr>"
  using assms by (simp add: makeRequest_def Let_def mapper_def split: prod.splits option.splits)

subsection \<open>Headers, body and authentication of the outgoing request\<close>

text \<open>
  Every theorem of this subsection is about \<^verbatim>\<open>makeRequest\<close> on an arbitrary builder,
  so about each of \<^verbatim>\<open>Get\<close>, \<^verbatim>\<open>Post\<close>, \<^verbatim>\<open>Patch\<close> and \<^verbatim>\<open>Delete\<close>: it hands exactly
  one request to the transport, the one \<open>prepareRequest\<close> builds.
\<close>

text \<open>
  Claim C7. For every dispatch the configured headers are applied to the outgoing
  request in the order of the configured sequence, each value rendered to its string
  form when it is applied: the \<^verbatim>\<open>Header.Set\<close> calls on the request are the configured
  headers, in order, as (tag, rendered value), followed by what the authentication
  step sets.
\<close>

theorem makeRequest_headers_in_order:
  "sent_requests (calls (makeRequest DoTimeout Unmarshal Sprintf_v b mem)) =
     [(make_client b, prepareRequest Sprintf_v b, Timeout (options b))] \<and>
   header_sets (prepareRequest Sprintf_v b) =
     map (\<lambda>h. (Tag h, Sprintf_v (Value h))) (Headers (options b)) @
     header_sets (set_auth (Auth (options b)) AcquireRequest)"
  by (simp add: makeRequest_sent header_sets_prepareRequest
      header_sets_set_auth [of _ "set_headers _ _ _"] header_sets_set_headers AcquireRequest_def)

text \<open>
  Claim C5. For every dispatch the body of the outgoing request is the configured
  payload, byte for byte, when the payload is not nil, and no body is attached when
  it is nil.
\<close>

theorem makeRequest_body_is_payload:
  "sent_requests (calls (makeRequest DoTimeout Unmarshal Sprintf_v b mem)) =
     [(make_client b, prepareRequest Sprintf_v b, Timeout (options b))] \<and>
   body (prepareRequest Sprintf_v b) = payload (options b)"
  by (simp add: makeRequest_sent body_prepareRequest)

text \<open>
  Claim C1 as it is written fails: with an empty \<^verbatim>\<open>Auth\<close> the request still carries an
  Authorization header when one of the configured headers has that name, so the header
  is not determined by the \<^verbatim>\<open>Auth\<close> value alone.
\<close>

theorem own_Authorization_header_counterexample:
  "Username (Auth (options own_Authorization)) = [] \<and>
   Password (Auth (options own_Authorization)) = [] \<and>
   Token (Auth (options own_Authorization)) = [] \<and>
   sent_requests (calls (makeRequest transport_ok digits_Unmarshal id own_Authorization Map.empty)) =
     [(make_client own_Authorization, prepareRequest id own_Authorization, 0)] \<and>
   Peek id ''Authorization'' (prepareRequest id own_Authorization) = Some ''ApiKey k1''"
proof -
  have a: "Auth (options own_Authorization) = Auth_zero"
    and t: "Timeout (options own_Authorization) = 0"
    and h: "Headers (options own_Authorization) = [\<lparr>Tag = ''Authorization'', Value = ''ApiKey k1''\<rparr>]"
    by (simp_all add: own_Authorization_def RequestOptions_zero_def)
  have "Peek id ''Authorization'' (prepareRequest id own_Authorization) =
          Peek id ''Authorization''
            (set_headers id [\<lparr>Tag = ''Authorization'', Value = ''ApiKey k1''\<rparr>] AcquireRequest)"
    by (simp add: Peek_prepareRequest a h Auth_zero_def)
  also have "\<dots> = Some ''ApiKey k1''"
    by (simp add: Peek_Header_Set)
  finally show ?thesis
    by (simp add: makeRequest_sent a t Auth_zero_def)
qed

text \<open>
  Claim C1, amended. For every dispatched request the authentication step sets the
  Authorization header from the configured \<^verbatim>\<open>Auth\<close> value alone: to \<^verbatim>\<open>Basic\<close> and the
  base64 encoding of \<^verbatim>\<open>username:password\<close> if both are non-empty; otherwise to
  \<^verbatim>\<open>Bearer\<close> and the token if the token is non-empty; otherwise it sets nothing, and the
  request then carries the Authorization header the configured headers gave it, none
  if no configured header has that name. The step issues at most one \<^verbatim>\<open>Set\<close>, so at
  most one of the two schemes is applied.
\<close>

theorem makeRequest_Authorization:
  "sent_requests (calls (makeRequest DoTimeout Unmarshal Sprintf_v b mem)) =
     [(make_client b, prepareRequest Sprintf_v b, Timeout (options b))] \<and>
   Peek norm ''Authorization'' (prepareRequest Sprintf_v b) =
     (if Username (Auth (options b)) \<noteq> [] \<and> Password (Auth (options b)) \<noteq> [] then
        Some (''Basic '' @
              EncodeToString (Username (Auth (options b)) @ '':'' @ Password (Auth (options b))))
      else if Token (Auth (options b)) \<noteq> [] then Some (''Bearer '' @ Token (Auth (options b)))
      else Peek norm ''Authorization''
             (set_headers Sprintf_v (Headers (options b)) AcquireRequest)) \<and>
   ((\<forall>h \<in> set (Headers (options b)). norm (Tag h) \<noteq> norm ''Authorization'') \<longrightarrow>
      Peek norm ''Authorization''
        (set_headers Sprintf_v (Headers (options b)) AcquireRequest) = None) \<and>
   length (header_sets (prepareRequest Sprintf_v b)) \<le> length (Headers (options b)) + 1"
proof (intro conjI impI)
  show "sent_requests (calls (makeRequest DoTimeout Unmarshal Sprintf_v b mem)) =
     [(make_client b, prepareRequest Sprintf_v b, Timeout (options b))]"
    by (rule makeRequest_sent)
next
  show "Peek norm ''Authorization'' (prepareRequest Sprintf_v b) =
     (if Username (Auth (options b)) \<noteq> [] \<and> Password (Auth (options b)) \<noteq> [] then
        Some (''Basic '' @
              EncodeToString (Username (Auth (options b)) @ '':'' @ Password (Auth (options b))))
      else if Token (Auth (options b)) \<noteq> [] then Some (''Bearer '' @ Token (Auth (options b)))
      else Peek norm ''Authorization''
             (set_headers Sprintf_v (Headers (options b)) AcquireRequest))"
    by (rule Peek_prepareRequest)
next
  assume "\<forall>h \<in> set (Headers (options b)). norm (Tag h) \<noteq> norm ''Authorization''"
  then show "Peek norm ''Authorization''
        (set_headers Sprintf_v (Headers (options b)) AcquireRequest) = None"
    by (rule Peek_none)
next
  have "length (header_sets (set_auth (Auth (options b)) AcquireRequest)) \<le> 1"
    by (simp add: set_auth_def Header_Set_def AcquireRequest_def Let_def)
  then show "length (header_sets (prepareRequest Sprintf_v b)) \<le> length (Headers (options b)) + 1"
    by (simp add: header_sets_prepareRequest header_sets_set_auth [of _ "set_headers _ _ _"]
        header_sets_set_headers AcquireRequest_def)
qed

theorem makeRequest_Authorization_witness:
  "Peek id ''Authorization'' (prepareRequest id no_credentials) = None \<and>
   Peek id ''Authorization'' (prepareRequest id both_credentials) = Some ''Basic dTpw''"
  using makeRequest_Authorization [of transport_ok digits_Unmarshal id no_credentials Map.empty id]
    makeRequest_Authorization [of transport_ok digits_Unmarshal id both_credentials Map.empty id]
  by (simp add: no_credentials_def both_credentials_def get_example_def RequestOptions_zero_def
      Auth_zero_def FastBuilder_zero_def enc6_def encodeStd_def)

subsection \<open>Transport failures and the timeout\<close>

text \<open>
  Claim C3, on a builder with the timeout 5000 and two failing transport calls. The
  error returned is chosen by the deadline context alone, which the transport never
  sees, and not by the failure: a refused connection reported when the context's
  deadline has passed and its timer has run is returned as the timeout error; the
  transport's own timeout, reported after the deadline and before the timer's
  callback has run, is returned as the transport-failure error. Two transport errors
  reported at the same moment always get the same kind of error, whatever they are.
\<close>

theorem makeRequest_timeout_kind_ignores_failure:
  "Timeout (options post_example) = 5000 \<and>
   returned (makeRequest
     (transport_fails ''connection refused'' \<lparr>elapsed = 5200, timer_fired = True\<rparr>)
     digits_Unmarshal id post_example Map.empty) = Inl (Errorf ''request timed out'') \<and>
   returned (makeRequest
     (transport_fails ''timeout'' \<lparr>elapsed = 5300, timer_fired = False\<rparr>)
     digits_Unmarshal id post_example Map.empty) = Inl (Errorf ''request failed: timeout'') \<and>
   (returned (makeRequest (transport_fails err1 now) Unmarshal Sprintf_v b mem) =
      Inl (Errorf ''request timed out'')) =
   (returned (makeRequest (transport_fails err2 now) Unmarshal Sprintf_v b mem) =
      Inl (Errorf ''request timed out''))"
proof -
  have t: "Timeout (options post_example) = 5000"
    by (simp add: post_example_def RequestOptions_zero_def)
  have refused: "returned (makeRequest
     (transport_fails ''connection refused'' \<lparr>elapsed = 5200, timer_fired = True\<rparr>)
     digits_Unmarshal id post_example Map.empty) = Inl (Errorf ''request timed out'')"
    by (simp add: makeRequest_error [where err = "''connection refused''"
          and now = "\<lparr>elapsed = 5200, timer_fired = True\<rparr>"] transport_fails_def t)
  have timeout: "returned (makeRequest
     (transport_fails ''timeout'' \<lparr>elapsed = 5300, timer_fired = False\<rparr>)
     digits_Unmarshal id post_example Map.empty) = Inl (Errorf ''request failed: timeout'')"
    by (simp add: makeRequest_error [where err = "''timeout''"
          and now = "\<lparr>elapsed = 5300, timer_fired = False\<rparr>"] transport_fails_def t)
  have same: "(returned (makeRequest (transport_fails err1 now) Unmarshal Sprintf_v b mem) =
      Inl (Errorf ''request timed out'')) =
   (returned (makeRequest (transport_fails err2 now) Unmarshal Sprintf_v b mem) =
      Inl (Errorf ''request timed out''))"
    by (simp add: makeRequest_error [where err = err1 and now = now]
        makeRequest_error [where err = err2 and now = now] transport_fails_def)
  from t refused timeout same show ?thesis by (intro conjI)
qed

text \<open>
  Claim C10. When no timeout is configured (\<^verbatim>\<open>Timeout\<close> is zero) a failing dispatch
  never returns the timeout error: the deadline context is the background context,
  which has no deadline, and every transport failure is reported as the
  transport-failure error.
\<close>

theorem makeRequest_unset_Timeout_generic_error:
  assumes "Timeout (options b) = 0"
    and "fst (DoTimeout (make_client b) (prepareRequest Sprintf_v b) (Timeout (options b))) =
           Inl err"
  shows "make_ctx b = Background \<and>
         returned (makeRequest DoTimeout Unmarshal Sprintf_v b mem) =
           Inl (Errorf (''request failed: '' @ err)) \<and>
         returned (makeRequest DoTimeout Unmarshal Sprintf_v b mem) \<noteq>
           Inl (Errorf ''request timed out'')"
proof -
  obtain now where
    "DoTimeout (make_client b) (prepareRequest Sprintf_v b) (Timeout (options b)) = (Inl err, now)"
    using assms(2) by (cases "DoTimeout (make_client b) (prepareRequest Sprintf_v b) (Timeout (options b))") simp
  then show ?thesis
    using assms(1) by (simp add: makeRequest_error make_ctx_def)
qed

theorem makeRequest_unset_Timeout_generic_error_witness:
  "Timeout (options get_example) = 0 \<and>
   fst (transport_fails ''timeout'' \<lparr>elapsed = 9000000, timer_fired = True\<rparr>
     (make_client get_example) (prepareRequest id get_example)
     (Timeout (options get_example))) = Inl ''timeout'' \<and>
   returned (makeRequest (transport_fails ''timeout'' \<lparr>elapsed = 9000000, timer_fired = True\<rparr>)
     digits_Unmarshal id get_example Map.empty) = Inl (Errorf ''request failed: timeout'')"
  using makeRequest_unset_Timeout_generic_error [of get_example
      "transport_fails ''timeout'' \<lparr>elapsed = 9000000, timer_fired = True\<rparr>"
      id "''timeout''" digits_Unmarshal Map.empty]
  by (simp add: transport_fails_def get_example_def FastBuilder_zero_def RequestOptions_zero_def)

text \<open>
  A transport whose timed call reports an error for every duration that is not
  positive makes every dispatch without a positive timeout fail.
\<close>

lemma makeRequest_guarded_transport:
  assumes "Timeout (options b) \<le> 0"
    and "\<And>client req d. d \<le> 0 \<Longrightarrow> fst (DoTimeout client req d) = Inl err"
  shows "returned (makeRequest DoTimeout Unmarshal Sprintf_v b mem) =
           Inl (Errorf (''request failed: '' @ err))"
proof -
  obtain now where
    "DoTimeout (make_client b) (prepareRequest Sprintf_v b) (Timeout (options b)) = (Inl err, now)"
    using assms(2) [OF assms(1), of "make_client b" "prepareRequest Sprintf_v b"]
    by (cases "DoTimeout (make_client b) (prepareRequest Sprintf_v b) (Timeout (options b))") simp
  then show ?thesis
    using assms(1) by (simp add: makeRequest_error)
qed

lemma Build_Uri:
  "Uri ''http://example.com'' p (snd (Build p Map.empty)) =
     Some (p, [p \<mapsto> FastBuilder_zero\<lparr>url := ''http://example.com''\<rparr>])"
  by (simp add: Build_def Uri_def)

lemma Get_makeRequest:
  "h b = Some fb \<Longrightarrow>
   Get tr um f b h mem =
     Some (makeRequest tr um f (fb\<lparr>method := ''GET''\<rparr>) mem, h(b \<mapsto> fb\<lparr>method := ''GET''\<rparr>))"
  by (simp add: Get_def Let_def)

lemma Post_Patch_Delete_makeRequest:
  assumes "h b = Some fb"
  shows "Post tr um f b h mem =
           Some (makeRequest tr um f (fb\<lparr>method := ''POST''\<rparr>) mem,
                 h(b \<mapsto> fb\<lparr>method := ''POST''\<rparr>))"
    and "Patch tr um f b h mem =
           Some (makeRequest tr um f (fb\<lparr>method := ''PATCH''\<rparr>) mem,
                 h(b \<mapsto> fb\<lparr>method := ''PATCH''\<rparr>))"
    and "Delete tr um f b h mem =
           Some (makeRequest tr um f (fb\<lparr>method := ''DELETE''\<rparr>) mem,
                 h(b \<mapsto> fb\<lparr>method := ''DELETE''\<rparr>))"
  using assms by (simp_all add: Post_def Patch_def Delete_def Let_def)

lemma get_example_alt:
  "(FastBuilder_zero\<lparr>url := ''http://example.com''\<rparr>)\<lparr>method := ''GET''\<rparr> = get_example"
  by (simp add: get_example_def FastBuilder_zero_def)

lemma prepareRequest_get_example:
  "prepareRequest id get_example =
     \<lparr>header_sets = [], requestURI = Some ''http://example.com'',
      header_method = Some ''GET'', body = None\<rparr>"
  by (simp add: prepareRequest_def get_example_def FastBuilder_zero_def RequestOptions_zero_def
      Auth_zero_def set_auth_def set_payload_def SetRequestURI_def Header_SetMethod_def
      AcquireRequest_def)

text \<open>
  Claim C4, on \<^verbatim>\<open>Build().Uri("http://example.com").Get()\<close>, where no timeout is
  configured: only the deadline context is made without a deadline; whatever the
  transport is, it is still called through \<^verbatim>\<open>DoTimeout\<close>, with the duration zero,
  and a transport that takes a duration that is not positive as already expired
  (\<open>transport_guarded\<close>) fails the request at once, with the transport-failure error.
\<close>

theorem makeRequest_zero_Timeout_reaches_DoTimeout:
  "make_ctx get_example = Background \<and>
   calls (makeRequest DoTimeout Unmarshal id get_example mem) =
     [Call_DoTimeout \<lparr>ReadTimeout = 0, WriteTimeout = 0\<rparr>
        \<lparr>header_sets = [], requestURI = Some ''http://example.com'',
         header_method = Some ''GET'', body = None\<rparr> 0] \<and>
   Option.bind (Uri ''http://example.com'' p (snd (Build p Map.empty)))
     (\<lambda>(b, h). Get transport_guarded Unmarshal id b h mem) =
     Some (\<lparr>returned = Inl (Errorf ''request failed: timeout''), memory = mem,
            calls = [Call_DoTimeout \<lparr>ReadTimeout = 0, WriteTimeout = 0\<rparr>
              \<lparr>header_sets = [], requestURI = Some ''http://example.com'',
               header_method = Some ''GET'', body = None\<rparr> 0]\<rparr>,
           [p \<mapsto> get_example])"
proof -
  have t: "Timeout (options get_example) = 0" and r: "result get_example = None"
    by (simp_all add: get_example_def FastBuilder_zero_def RequestOptions_zero_def)
  have c: "make_client get_example = \<lparr>ReadTimeout = 0, WriteTimeout = 0\<rparr>"
    by (simp add: make_client_def t)
  have sent: "calls (makeRequest DoTimeout Unmarshal id get_example mem) =
     [Call_DoTimeout (make_client get_example) (prepareRequest id get_example)
        (Timeout (options get_example))]"
    by (simp add: makeRequest_def Let_def r split: prod.splits sum.splits)
  have "makeRequest transport_guarded Unmarshal id get_example mem =
     \<lparr>returned = Inl (Errorf ''request failed: timeout''), memory = mem,
      calls = [Call_DoTimeout \<lparr>ReadTimeout = 0, WriteTimeout = 0\<rparr>
            \<lparr>header_sets = [], requestURI = Some ''http://example.com'',
             header_method = Some ''GET'', body = None\<rparr> 0]\<rparr>"
    by (simp add: makeRequest_error [where err = "''timeout''"
          and now = "\<lparr>elapsed = 0, timer_fired = False\<rparr>"]
        transport_guarded_def t c prepareRequest_get_example)
  then have "Option.bind (Uri ''http://example.com'' p (snd (Build p Map.empty)))
     (\<lambda>(b, h). Get transport_guarded Unmarshal id b h mem) =
     Some (\<lparr>returned = Inl (Errorf ''request failed: timeout''), memory = mem,
            calls = [Call_DoTimeout \<lparr>ReadTimeout = 0, WriteTimeout = 0\<rparr>
              \<lparr>header_sets = [], requestURI = Some ''http://example.com'',
               header_method = Some ''GET'', body = None\<rparr> 0]\<rparr>,
           [p \<mapsto> get_example])"
    by (simp add: Build_Uri Get_makeRequest get_example_alt)
  then show ?thesis
    by (simp add: sent make_ctx_def t c prepareRequest_get_example)
qed

subsection \<open>Decoding and the response\<close>

text \<open>
  Claim C2 as it is written fails: when the transport call fails the decoder is not
  run although a destination was supplied.
\<close>

theorem decode_skipped_counterexample:
  "result post_example \<noteq> None \<and>
   mapper_calls (calls (makeRequest
     (transport_fails ''connection refused'' \<lparr>elapsed = 10, timer_fired = False\<rparr>)
     digits_Unmarshal id
     post_example Map.empty)) = []"
  by (simp add: makeRequest_error [where err = "''connection refused''"
        and now = "\<lparr>elapsed = 10, timer_fired = False\<rparr>"]
      transport_fails_def post_example_def)

text \<open>
  Claim C2, amended. The JSON decoder runs if and only if the transport call succeeded
  and a destination was supplied. When it runs and reports an error, that error is
  returned and no response; when it runs and reports none, a response is returned
  and the memory is as the decoder left it, the destination filled in.
\<close>

theorem makeRequest_decode_step:
  "(mapper_calls (calls (makeRequest DoTimeout Unmarshal Sprintf_v b mem)) \<noteq> [] \<longleftrightarrow>
      (\<exists>resp now. DoTimeout (make_client b) (prepareRequest Sprintf_v b) (Timeout (options b)) =
         (Inr resp, now)) \<and> result b \<noteq> None) \<and>
   (\<forall>resp now dest e mem'.
      DoTimeout (make_client b) (prepareRequest Sprintf_v b) (Timeout (options b)) =
        (Inr resp, now) \<and>
      result b = Some dest \<and> Unmarshal (resp_Body resp) dest mem = (Some e, mem') \<longrightarrow>
      mapper_calls (calls (makeRequest DoTimeout Unmarshal Sprintf_v b mem)) =
        [(resp_Body resp, dest)] \<and>
      returned (makeRequest DoTimeout Unmarshal Sprintf_v b mem) = Inl (Unmarshal_error e)) \<and>
   (\<forall>resp now dest mem'.
      DoTimeout (make_client b) (prepareRequest Sprintf_v b) (Timeout (options b)) =
        (Inr resp, now) \<and>
      result b = Some dest \<and> Unmarshal (resp_Body resp) dest mem = (None, mem') \<longrightarrow>
      mapper_calls (calls (makeRequest DoTimeout Unmarshal Sprintf_v b mem)) =
        [(resp_Body resp, dest)] \<and>
      memory (makeRequest DoTimeout Unmarshal Sprintf_v b mem) = mem' \<and>
      (\<exists>R. returned (makeRequest DoTimeout Unmarshal Sprintf_v b mem) = Inr R))"
proof (intro conjI allI impI)
  show "mapper_calls (calls (makeRequest DoTimeout Unmarshal Sprintf_v b mem)) \<noteq> [] \<longleftrightarrow>
      (\<exists>resp now. DoTimeout (make_client b) (prepareRequest Sprintf_v b) (Timeout (options b)) =
         (Inr resp, now)) \<and> result b \<noteq> None"
  proof (cases "DoTimeout (make_client b) (prepareRequest Sprintf_v b) (Timeout (options b))")
    case (Pair x now)
    show ?thesis
    proof (cases x)
      case (Inl err)
      with Pair show ?thesis by (simp add: makeRequest_error)
    next
      case (Inr resp)
      with Pair show ?thesis
        by (cases "result b") (simp_all add: makeRequest_ok_None makeRequest_ok_Some)
    qed
  qed
next
  fix resp now dest e mem'
  assume "DoTimeout (make_client b) (prepareRequest Sprintf_v b) (Timeout (options b)) =
        (Inr resp, now) \<and>
      result b = Some dest \<and> Unmarshal (resp_Body resp) dest mem = (Some e, mem')"
  then show "mapper_calls (calls (makeRequest DoTimeout Unmarshal Sprintf_v b mem)) =
        [(resp_Body resp, dest)]"
    and "returned (makeRequest DoTimeout Unmarshal Sprintf_v b mem) = Inl (Unmarshal_error e)"
    by (simp_all add: makeRequest_ok_Some)
next
  fix resp now dest mem'
  assume "DoTimeout (make_client b) (prepareRequest Sprintf_v b) (Timeout (options b)) =
        (Inr resp, now) \<and>
      result b = Some dest \<and> Unmarshal (resp_Body resp) dest mem = (None, mem')"
  then show "mapper_calls (calls (makeRequest DoTimeout Unmarshal Sprintf_v b mem)) =
        [(resp_Body resp, dest)]"
    and "memory (makeRequest DoTimeout Unmarshal Sprintf_v b mem) = mem'"
    and "\<exists>R. returned (makeRequest DoTimeout Unmarshal Sprintf_v b mem) = Inr R"
    by (simp_all add: makeRequest_ok_Some)
qed

theorem makeRequest_decode_step_witness:
  "returned (makeRequest transport_garbage digits_Unmarshal id post_example Map.empty) =
     Inl (Unmarshal_error ''invalid character'') \<and>
   mapper_calls (calls (makeRequest transport_ok digits_Unmarshal id post_example Map.empty)) =
     [(''42'', 0)] \<and>
   memory (makeRequest transport_ok digits_Unmarshal id post_example Map.empty) = [0 \<mapsto> ''42''] \<and>
   (\<exists>R. returned (makeRequest transport_ok digits_Unmarshal id post_example Map.empty) = Inr R)"
  using makeRequest_decode_step [of transport_garbage digits_Unmarshal id post_example Map.empty]
    makeRequest_decode_step [of transport_ok digits_Unmarshal id post_example Map.empty]
  by (simp add: transport_garbage_def transport_ok_def sample_Response_def digits_Unmarshal_def
      post_example_def)

text \<open>
  A response that is returned is made from the transport's response: its status code,
  its string representation and its body.
\<close>

lemma makeRequest_returns_make_Response:
  assumes "returned (makeRequest DoTimeout Unmarshal Sprintf_v b mem) = Inr R"
  shows "\<exists>resp now.
           DoTimeout (make_client b) (prepareRequest Sprintf_v b) (Timeout (options b)) =
             (Inr resp, now) \<and>
           R = make_Response resp"
proof (cases "DoTimeout (make_client b) (prepareRequest Sprintf_v b) (Timeout (options b))")
  case (Pair x now)
  show ?thesis
  proof (cases x)
    case (Inl err)
    with Pair assms show ?thesis by (simp add: makeRequest_error split: if_splits)
  next
    case (Inr resp)
    with Pair assms show ?thesis
      by (cases "result b")
        (auto simp add: makeRequest_ok_None makeRequest_ok_Some split: option.splits)
  qed
qed

text \<open>
  Claim C6, on a dispatch that the transport answers with the status line
  \<^verbatim>\<open>HTTP/1.1 200 OK\<close>, one header line and the body \<^verbatim>\<open>42\<close>. The response returned has
  the status code as \<^verbatim>\<open>Code\<close> and the body as \<^verbatim>\<open>Body\<close>, but its \<^verbatim>\<open>Msg\<close> is the text
  of the whole response, header lines and body included, and not the status line;
  for every response of the transport \<^verbatim>\<open>Msg\<close> begins with the status line and is
  never equal to it.
\<close>

theorem makeRequest_Msg_is_whole_response:
  "returned (makeRequest transport_ok digits_Unmarshal id post_example Map.empty) =
     Inr \<lparr>Code = 200,
          Msg = ''HTTP/1.1 200 OK'' @ CRLF @ ''Content-Length: 2'' @ CRLF @ CRLF @ ''42'',
          Body = ''42''\<rparr> \<and>
   Code (make_Response resp) = resp_StatusCode resp \<and>
   Body (make_Response resp) = resp_Body resp \<and>
   Msg (make_Response resp) =
     resp_StatusLine resp @ CRLF @ concat (map (\<lambda>l. l @ CRLF) (resp_HeaderLines resp)) @
     CRLF @ resp_Body resp \<and>
   Msg (make_Response resp) \<noteq> resp_StatusLine resp"
proof -
  have "returned (makeRequest transport_ok digits_Unmarshal id post_example Map.empty) =
     Inr \<lparr>Code = 200,
          Msg = ''HTTP/1.1 200 OK'' @ CRLF @ ''Content-Length: 2'' @ CRLF @ CRLF @ ''42'',
          Body = ''42''\<rparr>"
    by (simp add: makeRequest_ok_Some [where resp = sample_Response
          and now = "\<lparr>elapsed = 1000, timer_fired = False\<rparr>" and dest = 0]
        transport_ok_def sample_Response_def digits_Unmarshal_def post_example_def
        make_Response_def resp_String_def)
  moreover have "Msg (make_Response resp) \<noteq> resp_StatusLine resp"
    by (simp add: make_Response_def resp_String_def CRLF_def)
  ultimately show ?thesis
    by (simp add: make_Response_def resp_String_def)
qed

subsection \<open>The setters\<close>

text \<open>
  Claim C8. Every setter, called on a builder, returns the pointer it was called on,
  leaves every other object of the heap as it was, and changes in the builder its own
  field only.
\<close>

theorem setters_return_receiver:
  assumes "h b = Some fb"
  shows "(\<exists>fb'. Uri u b h = Some (b, h(b \<mapsto> fb')) \<and> url fb' = u \<and>
            method fb' = method fb \<and> options fb' = options fb \<and> result fb' = result fb) \<and>
         (\<exists>fb'. Timeout_set t b h = Some (b, h(b \<mapsto> fb')) \<and> Timeout (options fb') = t \<and>
            payload (options fb') = payload (options fb) \<and>
            Headers (options fb') = Headers (options fb) \<and>
            Auth (options fb') = Auth (options fb) \<and>
            method fb' = method fb \<and> url fb' = url fb \<and> result fb' = result fb) \<and>
         (\<exists>fb'. Auth_set a b h = Some (b, h(b \<mapsto> fb')) \<and> Auth (options fb') = a \<and>
            Timeout (options fb') = Timeout (options fb) \<and>
            payload (options fb') = payload (options fb) \<and>
            Headers (options fb') = Headers (options fb) \<and>
            method fb' = method fb \<and> url fb' = url fb \<and> result fb' = result fb) \<and>
         (\<exists>fb'. Headers_set hs b h = Some (b, h(b \<mapsto> fb')) \<and> Headers (options fb') = hs \<and>
            Timeout (options fb') = Timeout (options fb) \<and>
            payload (options fb') = payload (options fb) \<and>
            Auth (options fb') = Auth (options fb) \<and>
            method fb' = method fb \<and> url fb' = url fb \<and> result fb' = result fb) \<and>
         (\<exists>fb'. Payload p b h = Some (b, h(b \<mapsto> fb')) \<and> payload (options fb') = p \<and>
            Timeout (options fb') = Timeout (options fb) \<and>
            Headers (options fb') = Headers (options fb) \<and>
            Auth (options fb') = Auth (options fb) \<and>
            method fb' = method fb \<and> url fb' = url fb \<and> result fb' = result fb) \<and>
         (\<exists>fb'. Result res b h = Some (b, h(b \<mapsto> fb')) \<and> result fb' = res \<and>
            method fb' = method fb \<and> url fb' = url fb \<and> options fb' = options fb)"
proof (intro conjI)
  show "\<exists>fb'. Uri u b h = Some (b, h(b \<mapsto> fb')) \<and> url fb' = u \<and>
            method fb' = method fb \<and> options fb' = options fb \<and> result fb' = result fb"
    using assms by (intro exI [of _ "fb\<lparr>url := u\<rparr>"]) (simp add: Uri_def)
  show "\<exists>fb'. Timeout_set t b h = Some (b, h(b \<mapsto> fb')) \<and> Timeout (options fb') = t \<and>
            payload (options fb') = payload (options fb) \<and>
            Headers (options fb') = Headers (options fb) \<and>
            Auth (options fb') = Auth (options fb) \<and>
            method fb' = method fb \<and> url fb' = url fb \<and> result fb' = result fb"
    using assms
    by (intro exI [of _ "fb\<lparr>options := (options fb)\<lparr>Timeout := t\<rparr>\<rparr>"])
      (simp add: Timeout_set_def)
  show "\<exists>fb'. Auth_set a b h = Some (b, h(b \<mapsto> fb')) \<and> Auth (options fb') = a \<and>
            Timeout (options fb') = Timeout (options fb) \<and>
            payload (options fb') = payload (options fb) \<and>
            Headers (options fb') = Headers (options fb) \<and>
            method fb' = method fb \<and> url fb' = url fb \<and> result fb' = result fb"
    using assms
    by (intro exI [of _ "fb\<lparr>options := (options fb)\<lparr>Auth := a\<rparr>\<rparr>"])
      (simp add: Auth_set_def)
  show "\<exists>fb'. Headers_set hs b h = Some (b, h(b \<mapsto> fb')) \<and> Headers (options fb') = hs \<and>
            Timeout (options fb') = Timeout (options fb) \<and>
            payload (options fb') = payload (options fb) \<and>
            Auth (options fb') = Auth (options fb) \<and>
            method fb' = method fb \<and> url fb' = url fb \<and> result fb' = result fb"
    using assms
    by (intro exI [of _ "fb\<lparr>options := (options fb)\<lparr>Headers := hs\<rparr>\<rparr>"])
      (simp add: Headers_set_def)
  show "\<exists>fb'. Payload p b h = Some (b, h(b \<mapsto> fb')) \<and> payload (options fb') = p \<and>
            Timeout (options fb') = Timeout (options fb) \<and>
            Headers (options fb') = Headers (options fb) \<and>
            Auth (options fb') = Auth (options fb) \<and>
            method fb' = method fb \<and> url fb' = url fb \<and> result fb' = result fb"
    using assms
    by (intro exI [of _ "fb\<lparr>options := (options fb)\<lparr>payload := p\<rparr>\<rparr>"])
      (simp add: Payload_def)
  show "\<exists>fb'. Result res b h = Some (b, h(b \<mapsto> fb')) \<and> result fb' = res \<and>
            method fb' = method fb \<and> url fb' = url fb \<and> options fb' = options fb"
    using assms by (intro exI [of _ "fb\<lparr>result := res\<rparr>"]) (simp add: Result_def)
qed

theorem setters_return_receiver_witness:
  "[(7::nat) \<mapsto> post_example] 7 = Some post_example \<and>
   (\<exists>fb'. Headers_set [] 7 [7 \<mapsto> post_example] = Some (7, [7 \<mapsto> fb']) \<and>
      Headers (options fb') = [] \<and> payload (options fb') = Some ''a=1'' \<and>
      Timeout (options fb') = 5000 \<and> url fb' = ''http://example.com'' \<and>
      result fb' = Some 0)"
proof -
  have h: "[(7::nat) \<mapsto> post_example] 7 = Some post_example" by simp
  have "\<exists>fb'. Headers_set [] 7 [7 \<mapsto> post_example] =
            Some (7, [7 \<mapsto> post_example](7 \<mapsto> fb')) \<and>
          Headers (options fb') = [] \<and>
          Timeout (options fb') = Timeout (options post_example) \<and>
          payload (options fb') = payload (options post_example) \<and>
          Auth (options fb') = Auth (options post_example) \<and>
          method fb' = method post_example \<and> url fb' = url post_example \<and>
          result fb' = result post_example"
    using setters_return_receiver [where h = "[7 \<mapsto> post_example]" and b = 7
        and fb = post_example and hs = "[]" and u = "[]" and t = 0 and a = Auth_zero
        and p = None and res = None, OF h]
    by (elim conjE)
  then show ?thesis
    using h by (auto simp add: post_example_def RequestOptions_zero_def)
qed

text \<open>
  Claim C9. Every setter is last-write-wins: two calls in a row leave the heap the
  second call alone produces (on a nil receiver both sides panic); \<^verbatim>\<open>Headers\<close>
  replaces the header sequence and does not append to it: read back after two calls,
  the sequence is the second one. With the same value twice (\<open>u1 = u2\<close> and so on)
  this is idempotence.
\<close>

theorem setters_last_write_wins:
  "Option.bind (Uri u1 b h) (\<lambda>(b', h'). Uri u2 b' h') = Uri u2 b h \<and>
   Option.bind (Timeout_set t1 b h) (\<lambda>(b', h'). Timeout_set t2 b' h') = Timeout_set t2 b h \<and>
   Option.bind (Auth_set a1 b h) (\<lambda>(b', h'). Auth_set a2 b' h') = Auth_set a2 b h \<and>
   Option.bind (Headers_set hs1 b h) (\<lambda>(b', h'). Headers_set hs2 b' h') = Headers_set hs2 b h \<and>
   Option.bind (Payload p1 b h) (\<lambda>(b', h'). Payload p2 b' h') = Payload p2 b h \<and>
   Option.bind (Result r1 b h) (\<lambda>(b', h'). Result r2 b' h') = Result r2 b h \<and>
   Option.bind (Option.bind (Headers_set hs1 b h) (\<lambda>(b', h'). Headers_set hs2 b' h'))
     (\<lambda>(b', h'). map_option (\<lambda>fb. Headers (options fb)) (h' b')) =
     map_option (\<lambda>fb. hs2) (h b)"
  by (simp add: Uri_def Timeout_set_def Auth_set_def Headers_set_def Payload_def Result_def
      split: option.splits)

end
